theory Spec2Isabelle
  imports Main
begin

section \<open>Errors and calls that do not return\<close>

text \<open>
  A Go function of the repository returns a value together with an \<open>error\<close> (nil or
  not), or it panics on a nil dereference. The error is a value; a panic is the constructor
  \<open>Panic\<close> of \<open>outcome\<close>.
\<close>

datatype error =
    NotFound string
  | Errorf string

datatype 'a outcome = Panic | Return 'a

section \<open>The CRD lister of the cache server (src/unnamed/part_000)\<close>

text \<open>
  \<open>context.Context\<close> carries the logical cluster of the request; nothing else of it matters
  here. The label selector of \<open>List\<close> and the CustomResourceDefinition itself are types of
  the Kubernetes libraries and stay abstract (type variables).
\<close>

record Context =
  ctx_cluster :: "string option"

text \<open>
  \<open>apiextensionslisters.CustomResourceDefinitionLister\<close> is an interface of the
  Kubernetes client library: a value of it is its two methods.
\<close>

record ('sel, 'crd) CustomResourceDefinitionLister =
  lister_List :: "'sel \<Rightarrow> 'crd list \<times> error option"
  lister_Get :: "string \<Rightarrow> 'crd option \<times> error option"

record ('sel, 'crd) crdLister =
  lister :: "('sel, 'crd) CustomResourceDefinitionLister"

definition crdLister_List ::
  "('sel, 'crd) crdLister \<Rightarrow> Context \<Rightarrow> 'sel \<Rightarrow> 'crd list \<times> error option" where
  "crdLister_List c ctx selector = lister_List (lister c) selector"

definition crdLister_Refresh ::
  "('sel, 'crd) crdLister \<Rightarrow> 'crd \<Rightarrow> 'crd option \<times> error option" where
  "crdLister_Refresh c crd = (Some crd, None)"

text \<open>
  \<open>clusters.ToClusterAwareKey\<close> belongs to the Kubernetes client library and
  \<open>bootstrap.SystemCRDLogicalCluster\<close> is a constant of a package whose file is not among
  the sources: both are parameters of \<open>crdLister_Get\<close>.
\<close>

definition crdLister_Get ::
  "(string \<Rightarrow> string \<Rightarrow> string) \<Rightarrow> string \<Rightarrow>
   ('sel, 'crd) crdLister \<Rightarrow> Context \<Rightarrow> string \<Rightarrow> 'crd option \<times> error option" where
  "crdLister_Get ToClusterAwareKey SystemCRDLogicalCluster c ctx name =
     lister_Get (lister c) (ToClusterAwareKey SystemCRDLogicalCluster name)"

section \<open>The APIExport indexers (src/unnamed/part_001)\<close>

text \<open>
  The declaration of \<open>APIExport\<close> (package \<open>apis/v1alpha1\<close>) is not among the sources.
  The records below hold the fields that the indexers and the end-to-end test read:
  \<open>Spec.Identity\<close> and \<open>Identity.SecretRef\<close> are pointers (\<open>option\<close>), a
  \<open>corev1.SecretReference\<close> has a namespace and a name.
\<close>

record SecretReference =
  ref_Name :: string
  ref_Namespace :: string

record Identity =
  SecretRef :: "SecretReference option"

record APIExportSpec =
  LatestResourceSchemas :: "string list"
  spec_Identity :: "Identity option"

record APIExportStatus =
  status_IdentityHash :: string

record APIExport =
  meta_Name :: string
  meta_Annotations :: "(string \<times> string) list"
  export_Spec :: APIExportSpec
  export_Status :: APIExportStatus

text \<open>
  The argument of an index function is an \<open>interface{}\<close>: the nil interface, a value of
  some other dynamic type (of which \<open>%T\<close> prints the name), or a \<open>*APIExport\<close>, which may
  itself be a nil pointer.
\<close>

datatype obj =
    NilInterface
  | OtherType string
  | APIExportPtr "APIExport option"

fun typeName :: "obj \<Rightarrow> string" where
  "typeName NilInterface = ''<nil>''"
| "typeName (OtherType t) = t"
| "typeName (APIExportPtr _) = ''*v1alpha1.APIExport''"

definition APIExportByIdentity :: string where
  "APIExportByIdentity = ''APIExportByIdentity''"

definition APIExportBySecret :: string where
  "APIExportBySecret = ''APIExportSecret''"

fun IndexAPIExportByIdentity :: "obj \<Rightarrow> (string list \<times> error option) outcome" where
  "IndexAPIExportByIdentity (APIExportPtr None) = Panic"
| "IndexAPIExportByIdentity (APIExportPtr (Some apiExport)) =
     Return ([status_IdentityHash (export_Status apiExport)], None)"
| "IndexAPIExportByIdentity obj =
     Return ([], Some (Errorf (''obj '' @ typeName obj @ '' is not an APIExport'')))"

text \<open>
  \<open>logicalcluster.From\<close> (the logical cluster an object lives in) and
  \<open>clusters.ToClusterAwareKey\<close> are functions of external libraries, taken as
  parameters. The checks are those of the source, in its order.
\<close>

fun IndexAPIExportBySecret ::
  "(APIExport \<Rightarrow> string) \<Rightarrow> (string \<Rightarrow> string \<Rightarrow> string) \<Rightarrow> obj \<Rightarrow>
   (string list \<times> error option) outcome" where
  "IndexAPIExportBySecret From ToClusterAwareKey (APIExportPtr None) = Panic"
| "IndexAPIExportBySecret From ToClusterAwareKey (APIExportPtr (Some apiExport)) =
     (case spec_Identity (export_Spec apiExport) of
        None \<Rightarrow> Return ([], None)
      | Some identity \<Rightarrow>
          (case SecretRef identity of
             None \<Rightarrow> Return ([], None)
           | Some ref \<Rightarrow>
               if ref_Namespace ref = [] \<or> ref_Name ref = [] then Return ([], None)
               else Return ([ref_Namespace ref @ ''/'' @
                               ToClusterAwareKey (From apiExport) (ref_Name ref)], None)))"
| "IndexAPIExportBySecret From ToClusterAwareKey obj =
     Return ([], Some (Errorf (''obj '' @ typeName obj @ '' is not an APIExport'')))"

text \<open>
  Two observations on a call: the result carries an error (a panic returns nothing, so it
  carries none); the argument has the dynamic type \<open>*APIExport\<close>.
\<close>

fun returnsError :: "(string list \<times> error option) outcome \<Rightarrow> bool" where
  "returnsError (Return (_, Some _)) = True"
| "returnsError _ = False"

fun isAPIExport :: "obj \<Rightarrow> bool" where
  "isAPIExport (APIExportPtr _) = True"
| "isAPIExport _ = False"

section \<open>The workload API types (src/pkg/apis/workload/v1alpha1/types.go)\<close>

subsection \<open>Per-object sync state: label values and key prefixes\<close>








definition ClusterSpecDiffAnnotationPrefix :: string where
  "ClusterSpecDiffAnnotationPrefix = ''experimental.spec-diff.workload.kcp.dev/''"

definition InternalDownstreamClusterLabel :: string where
  "InternalDownstreamClusterLabel = ''internal.workload.kcp.dev/cluster''"

definition AnnotationSkipDefaultObjectCreation :: string where
  "AnnotationSkipDefaultObjectCreation = ''workload.kcp.dev/skip-default-object-creation''"

definition InternalSyncTargetPlacementAnnotationKey :: string where
  "InternalSyncTargetPlacementAnnotationKey = ''internal.workload.kcp.dev/synctarget''"

definition InternalSyncTargetKeyLabel :: string where
  "InternalSyncTargetKeyLabel = ''internal.workload.kcp.dev/key''"

subsection \<open>SyncTarget\<close>

text \<open>
  \<open>ResourceCompatibleState\<close> is a string type with three named values; the schema marker
  \<open>+kubebuilder:validation:Enum\<close> admits no other.
\<close>

type_synonym ResourceCompatibleState = string

definition ResourceSchemaPendingState :: ResourceCompatibleState where
  "ResourceSchemaPendingState = ''Pending''"


definition ResourceSchemaIncomptibleState :: ResourceCompatibleState where
  "ResourceSchemaIncomptibleState = ''Incompatible''"

text \<open>
  \<open>ResourceToSync\<close> embeds \<open>apisv1alpha1.GroupResource\<close> (a group and a resource name)
  and adds the versions, the identity hash and the state.
\<close>

record GroupResource =
  Group :: string
  Resource :: string

record ResourceToSync = GroupResource +
  Versions :: "string list"
  IdentityHash :: string
  State :: ResourceCompatibleState

record VirtualWorkspace =
  URL :: string

text \<open>
  \<open>apisv1alpha1.ExportReference\<close> is declared outside the sources; the test writes it as
  \<open>{"workspace": {"path": ..., "exportName": ...}}\<close> and the default marker of
  \<open>SupportedAPIExports\<close> as \<open>{workspace: {exportName: kubernetes}}\<close>.
\<close>

record WorkspaceExportReference =
  Path :: string
  ExportName :: string

record ExportReference =
  Workspace :: "WorkspaceExportReference option"

text \<open>
  A condition of the third-party conditions package (declared outside the sources): its
  type, its status and its reason. \<open>metav1.Time\<close> is a number of seconds;
  \<open>corev1.ResourceList\<close> maps resource names to quantities.
\<close>

record Condition =
  cond_Type :: string
  cond_Status :: string
  cond_Reason :: string

type_synonym Conditions = "Condition list"

type_synonym Time = int

type_synonym ResourceList = "(string \<times> string) list"

record SyncTargetSpec =
  Unschedulable :: bool
  EvictAfter :: "Time option"
  SupportedAPIExports :: "ExportReference list"
  Cells :: "(string \<times> string) list"

record SyncTargetStatus =
  Allocatable :: "ResourceList option"
  Capacity :: "ResourceList option"
  Conditions :: Conditions
  SyncedResources :: "ResourceToSync list"
  LastSyncerHeartbeatTime :: "Time option"
  VirtualWorkspaces :: "VirtualWorkspace list"

record SyncTarget =
  target_Name :: string
  Spec :: SyncTargetSpec
  Status :: SyncTargetStatus

definition SyncerReady :: string where
  "SyncerReady = ''SyncerReady''"

definition APIImporterReady :: string where
  "APIImporterReady = ''APIImporterReady''"

definition HeartbeatHealthy :: string where
  "HeartbeatHealthy = ''HeartbeatHealthy''"

definition ErrorHeartbeatMissedReason :: string where
  "ErrorHeartbeatMissedReason = ''ErrorHeartbeat''"

definition SetConditions :: "SyncTarget \<Rightarrow> Conditions \<Rightarrow> SyncTarget" where
  "SetConditions in' conditions = in'\<lparr>Status := (Status in')\<lparr>Conditions := conditions\<rparr>\<rparr>"

definition GetConditions :: "SyncTarget \<Rightarrow> Conditions" where
  "GetConditions in' = Conditions (Status in')"

section \<open>Heartbeat health of a sync target\<close>

text \<open>
  Modelled from the spec: the conditions package and the heartbeat reconciler (status
  reconciler, section 4.2) are not among the sources; types.go gives the condition type
  \<open>HeartbeatHealthy\<close>, the reason \<open>ErrorHeartbeatMissedReason\<close>, the accessors
  \<open>GetConditions\<close> and \<open>SetConditions\<close> and the field \<open>LastSyncerHeartbeatTime\<close>.

  A sync target holds a condition set: at most one condition of a type. Setting a
  condition replaces the one of its type, or adds it.
\<close>

definition ConditionTrue :: string where
  "ConditionTrue = ''True''"

definition ConditionFalse :: string where
  "ConditionFalse = ''False''"

definition getCondition :: "Conditions \<Rightarrow> string \<Rightarrow> Condition option" where
  "getCondition conditions conditionType =
     find (\<lambda>c. cond_Type c = conditionType) conditions"

fun setCondition :: "Conditions \<Rightarrow> Condition \<Rightarrow> Conditions" where
  "setCondition [] new = [new]"
| "setCondition (c # cs) new =
     (if cond_Type c = cond_Type new then new # cs else c # setCondition cs new)"

definition MarkTrue :: "SyncTarget \<Rightarrow> string \<Rightarrow> SyncTarget" where
  "MarkTrue target conditionType =
     SetConditions target
       (setCondition (GetConditions target)
          \<lparr>cond_Type = conditionType, cond_Status = ConditionTrue, cond_Reason = ''''\<rparr>)"

definition MarkFalse :: "SyncTarget \<Rightarrow> string \<Rightarrow> string \<Rightarrow> SyncTarget" where
  "MarkFalse target conditionType reason =
     SetConditions target
       (setCondition (GetConditions target)
          \<lparr>cond_Type = conditionType, cond_Status = ConditionFalse, cond_Reason = reason\<rparr>)"

text \<open>
  Modelled from the spec: every observed heartbeat of the syncer updates
  \<open>LastSyncerHeartbeatTime\<close>.
\<close>

definition observeHeartbeat :: "Time \<Rightarrow> SyncTarget \<Rightarrow> SyncTarget" where
  "observeHeartbeat heartbeat target =
     target\<lparr>Status := (Status target)\<lparr>LastSyncerHeartbeatTime := Some heartbeat\<rparr>\<rparr>"

text \<open>
  Modelled from the spec: one pass of the reconciler at time \<open>now\<close>. If the time since the
  last heartbeat exceeds the configured threshold (a duration, in the unit of \<open>Time\<close>), the
  condition \<open>HeartbeatHealthy\<close> is set to false with reason \<open>ErrorHeartbeat\<close>; otherwise it
  is set to true. The spec does not say what a pass does before the first heartbeat; by
  the comment of \<open>HeartbeatHealthy\<close> in types.go (a heartbeat has been seen within the
  expected interval) the condition cannot be true then, and the pass sets it to false.
\<close>

definition reconcileHeartbeat :: "nat \<Rightarrow> Time \<Rightarrow> SyncTarget \<Rightarrow> SyncTarget" where
  "reconcileHeartbeat heartbeatThreshold now target =
     (case LastSyncerHeartbeatTime (Status target) of
        None \<Rightarrow> MarkFalse target HeartbeatHealthy ErrorHeartbeatMissedReason
      | Some latestHeartbeat \<Rightarrow>
          if now - latestHeartbeat > int heartbeatThreshold
            then MarkFalse target HeartbeatHealthy ErrorHeartbeatMissedReason
          else MarkTrue target HeartbeatHealthy)"

section \<open>The per-object sync state machine\<close>
















section \<open>Properties of the CRD lister\<close>

text \<open>
  C9. For every name and every context, \<open>crdLister.Get\<close> asks the underlying lister for the
  cluster-aware key built from the fixed \<open>SystemCRDLogicalCluster\<close> and the name, and its
  answer does not depend on the context: two callers with different requesting clusters get
  the same result.
\<close>

theorem crdLister_Get_system_key:
  "crdLister_Get ToClusterAwareKey SystemCRDLogicalCluster c ctx name =
     lister_Get (lister c) (ToClusterAwareKey SystemCRDLogicalCluster name)
   \<and> crdLister_Get ToClusterAwareKey SystemCRDLogicalCluster c ctx name =
     crdLister_Get ToClusterAwareKey SystemCRDLogicalCluster c ctx' name"
  by (simp add: crdLister_Get_def)

theorem crdLister_Get_system_key_witness:
  "crdLister_Get (\<lambda>cluster name. cluster @ ''|'' @ name) ''system:system-crds''
     \<lparr>lister = \<lparr>lister_List = (\<lambda>selector::unit. ([], None)),
                 lister_Get = (\<lambda>key.
                   if key = ''system:system-crds|widgets.example.io''
                     then (Some ''the CRD of the system workspace'', None)
                   else if key = ''root:org:a|widgets.example.io''
                     then (Some ''a CRD of workspace root:org:a'', None)
                   else (None, Some (NotFound key)))\<rparr>\<rparr>
     \<lparr>ctx_cluster = Some ''root:org:a''\<rparr> ''widgets.example.io''
   = (Some ''the CRD of the system workspace'', None)
   \<and> crdLister_Get (\<lambda>cluster name. cluster @ ''|'' @ name) ''system:system-crds''
     \<lparr>lister = \<lparr>lister_List = (\<lambda>selector::unit. ([], None)),
                 lister_Get = (\<lambda>key.
                   if key = ''system:system-crds|widgets.example.io''
                     then (Some ''the CRD of the system workspace'', None)
                   else if key = ''root:org:a|widgets.example.io''
                     then (Some ''a CRD of workspace root:org:a'', None)
                   else (None, Some (NotFound key)))\<rparr>\<rparr>
     \<lparr>ctx_cluster = Some ''root:org:b''\<rparr> ''widgets.example.io''
   = (Some ''the CRD of the system workspace'', None)"
  using crdLister_Get_system_key
    [of "\<lambda>cluster name. cluster @ ''|'' @ name" "''system:system-crds''"
        "\<lparr>lister = \<lparr>lister_List = (\<lambda>selector::unit. ([], None)),
                 lister_Get = (\<lambda>key.
                   if key = ''system:system-crds|widgets.example.io''
                     then (Some ''the CRD of the system workspace'', None)
                   else if key = ''root:org:a|widgets.example.io''
                     then (Some ''a CRD of workspace root:org:a'', None)
                   else (None, Some (NotFound key)))\<rparr>\<rparr>"
        "\<lparr>ctx_cluster = Some ''root:org:a''\<rparr>" "''widgets.example.io''"
        "\<lparr>ctx_cluster = Some ''root:org:b''\<rparr>"]
  by (simp add: crdLister_Get_def)

section \<open>Properties of the APIExport indexers\<close>

lemma IndexAPIExportBySecret_error_iff:
  "returnsError (IndexAPIExportBySecret From ToClusterAwareKey obj) \<longleftrightarrow> \<not> isAPIExport obj"
proof (cases obj)
  case NilInterface
  then show ?thesis by simp
next
  case (OtherType t)
  then show ?thesis by simp
next
  case (APIExportPtr p)
  then show ?thesis
    by (cases p) (simp_all split: option.split)
qed

text \<open>
  C10. \<open>IndexAPIExportBySecret\<close> returns an error exactly when its argument is not a
  \<open>*APIExport\<close>. For an APIExport whose \<open>Spec.Identity\<close> is nil, whose \<open>SecretRef\<close> is nil,
  or whose secret reference has an empty namespace or name, it returns the empty index and
  no error; for every other APIExport it returns no error and exactly one key,
  \<open>namespace/ToClusterAwareKey(cluster of the export, secret name)\<close>.
\<close>

theorem IndexAPIExportBySecret_spec:
  "(returnsError (IndexAPIExportBySecret From ToClusterAwareKey obj) \<longleftrightarrow> \<not> isAPIExport obj)
   \<and> (spec_Identity (export_Spec apiExport) = None
        \<longrightarrow> IndexAPIExportBySecret From ToClusterAwareKey (APIExportPtr (Some apiExport))
              = Return ([], None))
   \<and> (spec_Identity (export_Spec apiExport) = Some identity \<and> SecretRef identity = None
        \<longrightarrow> IndexAPIExportBySecret From ToClusterAwareKey (APIExportPtr (Some apiExport))
              = Return ([], None))
   \<and> (spec_Identity (export_Spec apiExport) = Some identity \<and> SecretRef identity = Some ref
        \<and> (ref_Namespace ref = [] \<or> ref_Name ref = [])
        \<longrightarrow> IndexAPIExportBySecret From ToClusterAwareKey (APIExportPtr (Some apiExport))
              = Return ([], None))
   \<and> (spec_Identity (export_Spec apiExport) = Some identity \<and> SecretRef identity = Some ref
        \<and> ref_Namespace ref \<noteq> [] \<and> ref_Name ref \<noteq> []
        \<longrightarrow> IndexAPIExportBySecret From ToClusterAwareKey (APIExportPtr (Some apiExport))
              = Return ([ref_Namespace ref @ ''/'' @
                           ToClusterAwareKey (From apiExport) (ref_Name ref)], None))"
  using IndexAPIExportBySecret_error_iff [of From ToClusterAwareKey obj]
  by simp

theorem IndexAPIExportBySecret_spec_witness:
  "returnsError (IndexAPIExportBySecret (\<lambda>apiExport. ''root:org:ws'')
       (\<lambda>cluster name. cluster @ ''|'' @ name) (OtherType ''*v1.Secret''))
   \<and> \<not> isAPIExport (OtherType ''*v1.Secret'')
   \<and> IndexAPIExportBySecret (\<lambda>apiExport. ''root:org:ws'') (\<lambda>cluster name. cluster @ ''|'' @ name)
       (APIExportPtr (Some
          \<lparr>meta_Name = ''services'', meta_Annotations = [],
           export_Spec = \<lparr>LatestResourceSchemas = [], spec_Identity = None\<rparr>,
           export_Status = \<lparr>status_IdentityHash = ''''\<rparr>\<rparr>))
     = Return ([], None)
   \<and> IndexAPIExportBySecret (\<lambda>apiExport. ''root:org:ws'') (\<lambda>cluster name. cluster @ ''|'' @ name)
       (APIExportPtr (Some
          \<lparr>meta_Name = ''services'', meta_Annotations = [],
           export_Spec = \<lparr>LatestResourceSchemas = [],
                          spec_Identity = Some \<lparr>SecretRef = None\<rparr>\<rparr>,
           export_Status = \<lparr>status_IdentityHash = ''''\<rparr>\<rparr>))
     = Return ([], None)
   \<and> IndexAPIExportBySecret (\<lambda>apiExport. ''root:org:ws'') (\<lambda>cluster name. cluster @ ''|'' @ name)
       (APIExportPtr (Some
          \<lparr>meta_Name = ''services'', meta_Annotations = [],
           export_Spec = \<lparr>LatestResourceSchemas = [],
                          spec_Identity = Some \<lparr>SecretRef =
                            Some \<lparr>ref_Name = ''identity'', ref_Namespace = ''''\<rparr>\<rparr>\<rparr>,
           export_Status = \<lparr>status_IdentityHash = ''''\<rparr>\<rparr>))
     = Return ([], None)
   \<and> IndexAPIExportBySecret (\<lambda>apiExport. ''root:org:ws'') (\<lambda>cluster name. cluster @ ''|'' @ name)
       (APIExportPtr (Some
          \<lparr>meta_Name = ''services'', meta_Annotations = [],
           export_Spec = \<lparr>LatestResourceSchemas = [],
                          spec_Identity = Some \<lparr>SecretRef =
                            Some \<lparr>ref_Name = ''identity'', ref_Namespace = ''kcp-system''\<rparr>\<rparr>\<rparr>,
           export_Status = \<lparr>status_IdentityHash = ''''\<rparr>\<rparr>))
     = Return ([''kcp-system/root:org:ws|identity''], None)"
  using
    IndexAPIExportBySecret_spec
      [of "\<lambda>apiExport. ''root:org:ws''" "\<lambda>cluster name. cluster @ ''|'' @ name"
          "OtherType ''*v1.Secret''"
          "\<lparr>meta_Name = ''services'', meta_Annotations = [],
           export_Spec = \<lparr>LatestResourceSchemas = [], spec_Identity = None\<rparr>,
           export_Status = \<lparr>status_IdentityHash = ''''\<rparr>\<rparr>"]
    IndexAPIExportBySecret_spec
      [of "\<lambda>apiExport. ''root:org:ws''" "\<lambda>cluster name. cluster @ ''|'' @ name"
          "OtherType ''*v1.Secret''"
          "\<lparr>meta_Name = ''services'', meta_Annotations = [],
           export_Spec = \<lparr>LatestResourceSchemas = [],
                          spec_Identity = Some \<lparr>SecretRef = None\<rparr>\<rparr>,
           export_Status = \<lparr>status_IdentityHash = ''''\<rparr>\<rparr>"
          "\<lparr>SecretRef = None\<rparr>"]
    IndexAPIExportBySecret_spec
      [of "\<lambda>apiExport. ''root:org:ws''" "\<lambda>cluster name. cluster @ ''|'' @ name"
          "OtherType ''*v1.Secret''"
          "\<lparr>meta_Name = ''services'', meta_Annotations = [],
           export_Spec = \<lparr>LatestResourceSchemas = [],
                          spec_Identity = Some \<lparr>SecretRef =
                            Some \<lparr>ref_Name = ''identity'', ref_Namespace = ''''\<rparr>\<rparr>\<rparr>,
           export_Status = \<lparr>status_IdentityHash = ''''\<rparr>\<rparr>"
          "\<lparr>SecretRef = Some \<lparr>ref_Name = ''identity'', ref_Namespace = ''''\<rparr>\<rparr>"
          "\<lparr>ref_Name = ''identity'', ref_Namespace = ''''\<rparr>"]
    IndexAPIExportBySecret_spec
      [of "\<lambda>apiExport. ''root:org:ws''" "\<lambda>cluster name. cluster @ ''|'' @ name"
          "OtherType ''*v1.Secret''"
          "\<lparr>meta_Name = ''services'', meta_Annotations = [],
           export_Spec = \<lparr>LatestResourceSchemas = [],
                          spec_Identity = Some \<lparr>SecretRef =
                            Some \<lparr>ref_Name = ''identity'', ref_Namespace = ''kcp-system''\<rparr>\<rparr>\<rparr>,
           export_Status = \<lparr>status_IdentityHash = ''''\<rparr>\<rparr>"
          "\<lparr>SecretRef = Some \<lparr>ref_Name = ''identity'', ref_Namespace = ''kcp-system''\<rparr>\<rparr>"
          "\<lparr>ref_Name = ''identity'', ref_Namespace = ''kcp-system''\<rparr>"]
  by simp

section \<open>Properties of the heartbeat reconciler\<close>

lemma getCondition_setCondition:
  "getCondition (setCondition cs new) (cond_Type new) = Some new"
  by (induction cs) (simp_all add: getCondition_def)

lemma getCondition_MarkFalse:
  "getCondition (GetConditions (MarkFalse target t reason)) t =
     Some \<lparr>cond_Type = t, cond_Status = ConditionFalse, cond_Reason = reason\<rparr>"
  using getCondition_setCondition
    [of "GetConditions target"
        "\<lparr>cond_Type = t, cond_Status = ConditionFalse, cond_Reason = reason\<rparr>"]
  by (simp add: MarkFalse_def SetConditions_def GetConditions_def)

lemma getCondition_MarkTrue:
  "getCondition (GetConditions (MarkTrue target t)) t =
     Some \<lparr>cond_Type = t, cond_Status = ConditionTrue, cond_Reason = ''''\<rparr>"
  using getCondition_setCondition
    [of "GetConditions target"
        "\<lparr>cond_Type = t, cond_Status = ConditionTrue, cond_Reason = ''''\<rparr>"]
  by (simp add: MarkTrue_def SetConditions_def GetConditions_def)

lemma reconcileHeartbeat_missed:
  assumes "LastSyncerHeartbeatTime (Status target) = Some latest"
    and "now - latest > int threshold"
  shows "getCondition (GetConditions (reconcileHeartbeat threshold now target)) HeartbeatHealthy =
     Some \<lparr>cond_Type = HeartbeatHealthy, cond_Status = ConditionFalse,
           cond_Reason = ErrorHeartbeatMissedReason\<rparr>"
  using assms by (simp add: reconcileHeartbeat_def getCondition_MarkFalse)

lemma reconcileHeartbeat_seen:
  assumes "LastSyncerHeartbeatTime (Status target) = Some latest"
    and "now - latest \<le> int threshold"
  shows "getCondition (GetConditions (reconcileHeartbeat threshold now target)) HeartbeatHealthy =
     Some \<lparr>cond_Type = HeartbeatHealthy, cond_Status = ConditionTrue, cond_Reason = ''''\<rparr>"
  using assms by (simp add: reconcileHeartbeat_def getCondition_MarkTrue)

lemma observeHeartbeat_latest:
  "LastSyncerHeartbeatTime (Status (observeHeartbeat t target)) = Some t"
  by (simp add: observeHeartbeat_def)

text \<open>
  C7. Take any sync target whose last observed heartbeat is older than the threshold at
  the time of a reconciliation pass. After the pass its condition \<open>HeartbeatHealthy\<close> is
  false with reason \<open>ErrorHeartbeat\<close>. When a subsequent heartbeat is then observed, the pass
  that observes it (run at the time of the heartbeat) sets the condition to true again, and
  so does every pass at which that heartbeat is not older than the threshold. (A pass at
  which the new heartbeat is itself older than the threshold is a pass of the first kind.)
\<close>

theorem heartbeat_healthy_condition:
  assumes "LastSyncerHeartbeatTime (Status target) = Some latest"
    and "now - latest > int threshold"
  shows "getCondition (GetConditions (reconcileHeartbeat threshold now target)) HeartbeatHealthy =
       Some \<lparr>cond_Type = ''HeartbeatHealthy'', cond_Status = ''False'',
             cond_Reason = ''ErrorHeartbeat''\<rparr>
     \<and> getCondition (GetConditions
          (reconcileHeartbeat threshold subsequent
             (observeHeartbeat subsequent (reconcileHeartbeat threshold now target))))
          HeartbeatHealthy =
       Some \<lparr>cond_Type = ''HeartbeatHealthy'', cond_Status = ''True'', cond_Reason = ''''\<rparr>
     \<and> (later - subsequent \<le> int threshold \<longrightarrow>
        getCondition (GetConditions
          (reconcileHeartbeat threshold later
             (observeHeartbeat subsequent (reconcileHeartbeat threshold now target))))
          HeartbeatHealthy =
        Some \<lparr>cond_Type = ''HeartbeatHealthy'', cond_Status = ''True'', cond_Reason = ''''\<rparr>)"
proof -
  let ?observed = "observeHeartbeat subsequent (reconcileHeartbeat threshold now target)"
  have a: "LastSyncerHeartbeatTime (Status ?observed) = Some subsequent"
    by (rule observeHeartbeat_latest)
  have b: "subsequent - subsequent \<le> int threshold" by simp
  show ?thesis
    using reconcileHeartbeat_missed [OF assms] reconcileHeartbeat_seen [OF a b]
      reconcileHeartbeat_seen [OF a, of later threshold]
    by (simp add: ConditionFalse_def ConditionTrue_def ErrorHeartbeatMissedReason_def
          HeartbeatHealthy_def)
qed

text \<open>
  Scenario D: threshold 60, last heartbeat at 100, a pass at 200; then a heartbeat at 230,
  observed by a pass at 230 and by a pass at 240.
\<close>

theorem heartbeat_healthy_condition_witness:
  "getCondition (GetConditions (reconcileHeartbeat 60 200
       \<lparr>target_Name = ''east'',
        Spec = \<lparr>Unschedulable = False, EvictAfter = None, SupportedAPIExports = [], Cells = []\<rparr>,
        Status = \<lparr>Allocatable = None, Capacity = None,
                  Conditions = [\<lparr>cond_Type = ''HeartbeatHealthy'', cond_Status = ''True'',
                                 cond_Reason = ''''\<rparr>],
                  SyncedResources = [], LastSyncerHeartbeatTime = Some 100,
                  VirtualWorkspaces = []\<rparr>\<rparr>)) ''HeartbeatHealthy''
     = Some \<lparr>cond_Type = ''HeartbeatHealthy'', cond_Status = ''False'',
             cond_Reason = ''ErrorHeartbeat''\<rparr>
   \<and> getCondition (GetConditions (reconcileHeartbeat 60 240 (observeHeartbeat 230
       (reconcileHeartbeat 60 200
       \<lparr>target_Name = ''east'',
        Spec = \<lparr>Unschedulable = False, EvictAfter = None, SupportedAPIExports = [], Cells = []\<rparr>,
        Status = \<lparr>Allocatable = None, Capacity = None,
                  Conditions = [\<lparr>cond_Type = ''HeartbeatHealthy'', cond_Status = ''True'',
                                 cond_Reason = ''''\<rparr>],
                  SyncedResources = [], LastSyncerHeartbeatTime = Some 100,
                  VirtualWorkspaces = []\<rparr>\<rparr>)))) ''HeartbeatHealthy''
     = Some \<lparr>cond_Type = ''HeartbeatHealthy'', cond_Status = ''True'', cond_Reason = ''''\<rparr>"
proof -
  let ?target = "\<lparr>target_Name = ''east'',
        Spec = \<lparr>Unschedulable = False, EvictAfter = None, SupportedAPIExports = [], Cells = []\<rparr>,
        Status = \<lparr>Allocatable = None, Capacity = None,
                  Conditions = [\<lparr>cond_Type = ''HeartbeatHealthy'', cond_Status = ''True'',
                                 cond_Reason = ''''\<rparr>],
                  SyncedResources = [], LastSyncerHeartbeatTime = Some 100,
                  VirtualWorkspaces = []\<rparr>\<rparr>"
  have a: "LastSyncerHeartbeatTime (Status ?target) = Some 100" by simp
  have b: "(200::int) - 100 > int 60" by simp
  from heartbeat_healthy_condition [OF a b, of 230 240]
  show ?thesis by (simp add: HeartbeatHealthy_def)
qed

section \<open>Properties of the per-object sync state machine\<close>


















end
